theory Spec2Isabelle
  imports Main "HOL-Library.Sublist" "HOL-Library.Multiset"
begin

section \<open>The WordPress plugin downloader\<close>

text \<open>
  A shallow embedding of \<^verbatim>\<open>wordpress-plugin-downloader.py\<close>. The script queries the plugin
  registry page by page, keeps the plugins that pass the install-count and recency filter,
  writes the kept list to a cache file, and then downloads and unpacks every kept plugin
  under \<^verbatim>\<open><download_dir>/plugins/<slug>\<close>.

  What lies outside the script is a parameter of the model (the record \<open>env\<close>): the registry's
  answers, the archives behind the download links, the clock, the working directory, the
  timestamp parser (\<^verbatim>\<open>datetime.strptime\<close> depends on the process locale and on the local time
  zone names), the JSON codec and the order in which the worker pool completes its tasks.
  What the script changes is the state \<open>world\<close>: the file system and the log of requests sent.
  The model is the script on a POSIX system (\<^verbatim>\<open>os.name == 'posix'\<close>), on a file system without
  symbolic links and without permission or disk faults; JSON numbers are integers.
\<close>

subsection \<open>Values decoded from JSON, and the Python operations applied to them\<close>

datatype json =
    JNull
  | JBool bool
  | JInt int
  | JStr string
  | JArr "json list"
  | JObj "(string \<times> json) list"

text \<open>The two messages of the \<^verbatim>\<open>ValueError\<close> raised at lines 34 and 36: installs and bound.\<close>

datatype skip_reason = BelowMin int int | AboveMax int int

datatype py_error =
    KeyError
  | TypeError
  | AttributeError
  | OSError
  | JSONDecodeError
  | ValueError skip_reason

text \<open>A Python \<^verbatim>\<open>bool\<close> is an \<^verbatim>\<open>int\<close>; nothing else decoded from JSON compares with one.\<close>

fun py_int :: "json \<Rightarrow> py_error + int" where
  "py_int (JInt i) = Inr i"
| "py_int (JBool b) = Inr (if b then 1 else 0)"
| "py_int _ = Inl TypeError"

text \<open>\<^verbatim>\<open>d.get(k, default)\<close>: only a dict has the method.\<close>

fun py_get :: "json \<Rightarrow> string \<Rightarrow> json \<Rightarrow> py_error + json" where
  "py_get (JObj kvs) k dflt = Inr (case map_of kvs k of None \<Rightarrow> dflt | Some v \<Rightarrow> v)"
| "py_get _ k dflt = Inl AttributeError"

text \<open>\<^verbatim>\<open>d[k]\<close> with a string key.\<close>

fun py_getitem :: "json \<Rightarrow> string \<Rightarrow> py_error + json" where
  "py_getitem (JObj kvs) k = (case map_of kvs k of None \<Rightarrow> Inl KeyError | Some v \<Rightarrow> Inr v)"
| "py_getitem _ k = Inl TypeError"

text \<open>\<^verbatim>\<open>not x\<close>.\<close>

fun py_not :: "json \<Rightarrow> bool" where
  "py_not JNull = True"
| "py_not (JBool b) = (\<not> b)"
| "py_not (JInt i) = (i = 0)"
| "py_not (JStr s) = (s = [])"
| "py_not (JArr xs) = (xs = [])"
| "py_not (JObj kvs) = (kvs = [])"

text \<open>\<^verbatim>\<open>s in x\<close> for a string \<open>s\<close>: a key of a dict, an element of a list, a substring of a string.\<close>

fun py_contains :: "json \<Rightarrow> string \<Rightarrow> py_error + bool" where
  "py_contains (JObj kvs) k = Inr (k \<in> set (map fst kvs))"
| "py_contains (JArr xs) k = Inr (JStr k \<in> set xs)"
| "py_contains (JStr s) k = Inr (sublist k s)"
| "py_contains _ k = Inl TypeError"

text \<open>\<^verbatim>\<open>for x in v\<close>: the elements of a list, the keys of a dict, the characters of a string.\<close>

fun py_iter :: "json \<Rightarrow> py_error + json list" where
  "py_iter (JArr xs) = Inr xs"
| "py_iter (JObj kvs) = Inr (map (\<lambda>kv. JStr (fst kv)) kvs)"
| "py_iter (JStr s) = Inr (map (\<lambda>c. JStr [c]) s)"
| "py_iter _ = Inl TypeError"

text \<open>An exception raised by one statement leaves the statements after it undone.\<close>

definition py_then :: "py_error + 'a \<Rightarrow> ('a \<Rightarrow> py_error + 'b) \<Rightarrow> py_error + 'b" where
  "py_then r k = (case r of Inl err \<Rightarrow> Inl err | Inr x \<Rightarrow> k x)"

subsection \<open>The environment and the state\<close>

type_synonym path = "string list"

record member =
  filename :: string
  content :: string

datatype archive = BadZipFile | ZipFile "member list"

datatype download = RequestException | Content archive

datatype node = Dir | File string

datatype request = QueryPage int | Download json

record env =
  cwd :: path
  now_year :: int
  strptime_year :: "string \<Rightarrow> int option"
  first_query :: "json option"
  query_plugins :: "int \<Rightarrow> json option"
  fetch_archive :: "json \<Rightarrow> download"
  json_dumps :: "json \<Rightarrow> string"
  json_loads :: "string \<Rightarrow> json option"
  as_completed :: "int list \<Rightarrow> int list"

record world =
  files :: "path \<Rightarrow> node option"
  requests :: "request list"

subsection \<open>Paths as \<^verbatim>\<open>pathlib\<close> reads them on POSIX\<close>

text \<open>
  A \<^verbatim>\<open>PurePosixPath\<close> is a root (empty, \<^verbatim>\<open>/\<close> or \<^verbatim>\<open>//\<close>) and the segments after it. Parsing cuts
  the string at every \<^verbatim>\<open>/\<close> and drops the empty segments and the segments \<^verbatim>\<open>.\<close>; a segment
  \<^verbatim>\<open>..\<close> stays.
\<close>

datatype ppath = PPath (root: string) (segs: "string list")

text \<open>\<^verbatim>\<open>s.split('/')\<close>: the pieces between the slashes, the empty ones included.\<close>

fun split_slash :: "string \<Rightarrow> string list" where
  "split_slash [] = [[]]"
| "split_slash (c # cs) =
     (if c = CHR ''/'' then [] # split_slash cs
      else (case split_slash cs of x # xs \<Rightarrow> (c # x) # xs | [] \<Rightarrow> [[c]]))"

text \<open>The root: two leading slashes exactly are kept as \<^verbatim>\<open>//\<close>, one or three and more are \<^verbatim>\<open>/\<close>.\<close>

fun posix_root :: "string \<Rightarrow> string" where
  "posix_root (a # b # c # s) =
     (if a = CHR ''/'' then (if b = CHR ''/'' \<and> c \<noteq> CHR ''/'' then ''//'' else ''/'') else [])"
| "posix_root [a, b] =
     (if a = CHR ''/'' then (if b = CHR ''/'' then ''//'' else ''/'') else [])"
| "posix_root [a] = (if a = CHR ''/'' then ''/'' else [])"
| "posix_root [] = []"

definition posix_parse :: "string \<Rightarrow> ppath" where
  "posix_parse s = PPath (posix_root s) (filter (\<lambda>x. x \<noteq> [] \<and> x \<noteq> ''.'') (split_slash s))"

text \<open>\<^verbatim>\<open>p.parts\<close> and \<^verbatim>\<open>p.is_absolute()\<close>.\<close>

definition parts :: "ppath \<Rightarrow> string list" where
  "parts p = (if root p = [] then [] else [root p]) @ segs p"

definition is_absolute :: "ppath \<Rightarrow> bool" where
  "is_absolute p = (root p \<noteq> [])"

text \<open>
  \<^verbatim>\<open>p / s\<close> and \<^verbatim>\<open>p.joinpath(s1, ..., sn)\<close>: a rooted argument replaces what stands before
  it, any other argument adds its segments.
\<close>

definition truediv :: "ppath \<Rightarrow> string \<Rightarrow> ppath" where
  "truediv p s =
     (let q = posix_parse s in
      if root q \<noteq> [] then q else PPath (root p) (segs p @ segs q))"

definition joinpath :: "ppath \<Rightarrow> string list \<Rightarrow> ppath" where
  "joinpath p ss = foldl truediv p ss"

text \<open>
  \<^verbatim>\<open>p.resolve()\<close> where no symbolic link exists: a relative path starts at the working
  directory, \<^verbatim>\<open>..\<close> removes the segment before it and stays at the root. The result is the
  list of segments below the root, which is how the file system names its nodes.
\<close>

definition up_or_down :: "path \<Rightarrow> string \<Rightarrow> path" where
  "up_or_down acc x = (if x = ''..'' then butlast acc else acc @ [x])"

definition resolve :: "path \<Rightarrow> ppath \<Rightarrow> path" where
  "resolve wd p = foldl up_or_down (if root p = [] then wd else []) (segs p)"

definition parent :: "path \<Rightarrow> path" where
  "parent p = butlast p"

text \<open>A resolved path as the \<^verbatim>\<open>Path\<close> object the script goes on with.\<close>

definition as_ppath :: "path \<Rightarrow> ppath" where
  "as_ppath p = PPath ''/'' p"

subsection \<open>The file system\<close>

text \<open>
  A file system maps the paths that exist to a directory or to a file with its bytes.
  It is well formed when the root is a directory and whatever exists lies in a directory.
\<close>

type_synonym fs = "path \<Rightarrow> node option"

definition wf_fs :: "fs \<Rightarrow> bool" where
  "wf_fs f = (f [] = Some Dir \<and> (\<forall>p. f p \<noteq> None \<longrightarrow> f (butlast p) = Some Dir))"

definition is_file :: "fs \<Rightarrow> path \<Rightarrow> bool" where
  "is_file f p = (case f p of Some (File c) \<Rightarrow> True | _ \<Rightarrow> False)"

text \<open>
  \<^verbatim>\<open>p.mkdir(parents=True, exist_ok=True)\<close>: raises when \<open>p\<close> or a directory above it is a
  regular file, and then has created nothing; otherwise \<open>p\<close> and all above it are
  directories afterwards.
\<close>

definition mkdir_parents :: "fs \<Rightarrow> path \<Rightarrow> fs option" where
  "mkdir_parents f p =
     (if \<exists>q \<in> set (prefixes p). is_file f q then None
      else Some (\<lambda>q. if q \<in> set (prefixes p) then Some Dir else f q))"

text \<open>
  \<^verbatim>\<open>open(p, "wb")\<close> and the copy of the bytes: raises on a directory and where the parent is
  no directory; otherwise the file holds the bytes, whatever it held before.
\<close>

definition write_file :: "fs \<Rightarrow> path \<Rightarrow> string \<Rightarrow> fs option" where
  "write_file f p c =
     (if f p = Some Dir \<or> f (parent p) \<noteq> Some Dir then None else Some (f(p := Some (File c))))"

text \<open>
  \<^verbatim>\<open>shutil.rmtree(p, ignore_errors=True)\<close>: a directory goes with all below it (the root
  itself cannot be removed); on a regular file the call fails, which is ignored.
\<close>

definition rmtree :: "fs \<Rightarrow> path \<Rightarrow> fs" where
  "rmtree f p =
     (if f p = Some Dir then (\<lambda>q. if prefix p q \<and> q \<noteq> [] then None else f q) else f)"

subsection \<open>The archive extractor (lines 58 to 77)\<close>

text \<open>\<^verbatim>\<open>ZipInfo.is_dir()\<close>: the name ends in a slash.\<close>

definition is_dir :: "member \<Rightarrow> bool" where
  "is_dir m = (filename m \<noteq> [] \<and> last (filename m) = CHR ''/'')"

text \<open>
  The loop over \<^verbatim>\<open>z.infolist()\<close>. The result says whether an \<^verbatim>\<open>OSError\<close> ended the loop, and
  gives the file system as the loop left it.
\<close>

fun extract_members :: "path \<Rightarrow> path \<Rightarrow> member list \<Rightarrow> fs \<Rightarrow> py_error option \<times> fs" where
  "extract_members wd plugin_path [] f = (None, f)"
| "extract_members wd plugin_path (m # ms) f =
     (let member_filename = posix_parse (filename m) in
      if ''..'' \<in> set (parts member_filename) \<or> is_absolute member_filename
      then extract_members wd plugin_path ms f
      else
        let dest_file_path = resolve wd (joinpath (as_ppath plugin_path) (parts member_filename));
            dest_dir = parent dest_file_path
        in case mkdir_parents f dest_dir of
             None \<Rightarrow> (Some OSError, f)
           | Some f1 \<Rightarrow>
               if is_dir m then extract_members wd plugin_path ms f1
               else (case write_file f1 dest_file_path (content m) of
                       None \<Rightarrow> (Some OSError, f1)
                     | Some f2 \<Rightarrow> extract_members wd plugin_path ms f2))"

subsection \<open>The download orchestrator (lines 29 to 84)\<close>

text \<open>
  How a call that returns has ended: the archive unpacked to its end, or one of the three
  handlers of lines 79 to 84 has printed its message. \<open>Skipped\<close> is what the batch loop makes
  of the \<^verbatim>\<open>ValueError\<close>.
\<close>

datatype outcome = Extracted | DownloadFailed | BadArchive | ExtractFailed | Skipped skip_reason

text \<open>Lines 54 to 84: the request, the archive, the loop, and the three handlers.\<close>

definition fetch_and_extract :: "env \<Rightarrow> path \<Rightarrow> json \<Rightarrow> world \<Rightarrow> outcome \<times> world" where
  "fetch_and_extract e plugin_path download_link w =
     (let w1 = w\<lparr>requests := requests w @ [Download download_link]\<rparr> in
      case fetch_archive e download_link of
        RequestException \<Rightarrow> (DownloadFailed, w1)
      | Content BadZipFile \<Rightarrow> (BadArchive, w1)
      | Content (ZipFile ms) \<Rightarrow>
          (case extract_members (cwd e) plugin_path ms (files w1) of
             (None, f) \<Rightarrow> (Extracted, w1\<lparr>files := f\<rparr>)
           | (Some err, f) \<Rightarrow> (ExtractFailed, w1\<lparr>files := f\<rparr>)))"

text \<open>Lines 39 and 40: \<^verbatim>\<open>(Path(download_dir) / "plugins" / slug).resolve()\<close>.\<close>

definition plugin_dir :: "env \<Rightarrow> string \<Rightarrow> string \<Rightarrow> path" where
  "plugin_dir e download_dir slug =
     resolve (cwd e) (truediv (truediv (posix_parse download_dir) ''plugins'') slug)"

text \<open>Lines 46 to 49: \<^verbatim>\<open>if plugin_path.exists(): shutil.rmtree(plugin_path, ignore_errors=True)\<close>.\<close>

definition remove_old :: "path \<Rightarrow> world \<Rightarrow> world" where
  "remove_old plugin_path w =
     (if files w plugin_path \<noteq> None then w\<lparr>files := rmtree (files w) plugin_path\<rparr> else w)"

definition download_and_extract_plugin ::
  "env \<Rightarrow> json \<Rightarrow> string \<Rightarrow> int \<Rightarrow> int option \<Rightarrow> world \<Rightarrow> py_error + outcome \<times> world" where
  "download_and_extract_plugin e plugin download_dir min_installs max_installs w =
     py_then (py_getitem plugin ''slug'') (\<lambda>slug.
     py_then (py_get plugin ''active_installs'' (JInt 0)) (\<lambda>installs_v.
     py_then (py_int installs_v) (\<lambda>installs.
       if installs < min_installs then Inl (ValueError (BelowMin installs min_installs))
       else if (case max_installs of None \<Rightarrow> False | Some mx \<Rightarrow> installs > mx)
       then Inl (ValueError (AboveMax installs (the max_installs)))
       else
         py_then (py_get plugin ''download_link'' JNull) (\<lambda>download_link.
           (case slug of
              JStr s \<Rightarrow>
                (let plugin_path = plugin_dir e download_dir s in
                 Inr (fetch_and_extract e plugin_path download_link (remove_old plugin_path w)))
            | _ \<Rightarrow> Inl TypeError)))))"

subsection \<open>The plugin filter and the enumeration (lines 98 to 138)\<close>

text \<open>
  The body of the loop of \<^verbatim>\<open>process_page\<close>, lines 114 to 128: \<open>Inr True\<close> where the plugin is
  appended, \<open>Inr False\<close> at a \<^verbatim>\<open>continue\<close>, \<open>Inl\<close> where an exception leaves the loop. The inner
  \<^verbatim>\<open>try\<close> turns every exception of the timestamp into a \<^verbatim>\<open>continue\<close>.
\<close>

definition passes_filter :: "env \<Rightarrow> int \<Rightarrow> int option \<Rightarrow> json \<Rightarrow> py_error + bool" where
  "passes_filter e min_installs max_installs plugin =
     py_then (py_get plugin ''active_installs'' (JInt 0)) (\<lambda>installs_v.
     py_then (py_int installs_v) (\<lambda>installs.
       if installs < min_installs then Inr False
       else if (case max_installs of None \<Rightarrow> False | Some mx \<Rightarrow> installs > mx) then Inr False
       else
         (case py_get plugin ''last_updated'' (JStr []) of
            Inr (JStr last_updated) \<Rightarrow>
              (case strptime_year e last_updated of
                 None \<Rightarrow> Inr False
               | Some updated_year \<Rightarrow> Inr (\<not> updated_year < now_year e - 2))
          | _ \<Rightarrow> Inr False)))"

fun filter_plugins ::
  "env \<Rightarrow> int \<Rightarrow> int option \<Rightarrow> json list \<Rightarrow> json list \<Rightarrow> py_error + json list" where
  "filter_plugins e min_installs max_installs [] result = Inr result"
| "filter_plugins e min_installs max_installs (plugin # rest) result =
     (case passes_filter e min_installs max_installs plugin of
        Inl err \<Rightarrow> Inl err
      | Inr True \<Rightarrow> filter_plugins e min_installs max_installs rest (result @ [plugin])
      | Inr False \<Rightarrow> filter_plugins e min_installs max_installs rest result)"

text \<open>
  \<^verbatim>\<open>process_page\<close>: \<^verbatim>\<open>get_plugins\<close> returns \<^verbatim>\<open>None\<close> after a failed request, and \<^verbatim>\<open>None.get\<close>
  raises; whatever is raised, the outer handler returns the empty list.
\<close>

definition page_plugins :: "env \<Rightarrow> int \<Rightarrow> int option \<Rightarrow> int \<Rightarrow> py_error + json list" where
  "page_plugins e min_installs max_installs page =
     (case query_plugins e page of
        None \<Rightarrow> Inl AttributeError
      | Some data \<Rightarrow>
          py_then (py_get data ''plugins'' (JArr [])) (\<lambda>plugins.
          py_then (py_iter plugins) (\<lambda>ps.
            filter_plugins e min_installs max_installs ps [])))"

definition process_page :: "env \<Rightarrow> int \<Rightarrow> int option \<Rightarrow> int \<Rightarrow> json list" where
  "process_page e min_installs max_installs page =
     (case page_plugins e min_installs max_installs page of Inl err \<Rightarrow> [] | Inr result \<Rightarrow> result)"

text \<open>
  Lines 98 to 138. \<open>None\<close> is the \<^verbatim>\<open>return\<close> of line 101. The pool runs one task for every
  page; the main thread extends \<^verbatim>\<open>valid_plugins\<close> with the results in the order in which the
  tasks complete.
\<close>

definition page_range :: "int \<Rightarrow> int option \<Rightarrow> int list" where
  "page_range total_pages max_pages =
     [1 .. (case max_pages of None \<Rightarrow> total_pages | Some mp \<Rightarrow> min total_pages mp)]"

definition enumerate_plugins ::
  "env \<Rightarrow> int \<Rightarrow> int option \<Rightarrow> int option \<Rightarrow> world \<Rightarrow> py_error + json list option \<times> world" where
  "enumerate_plugins e min_installs max_installs max_pages w =
     (let w1 = w\<lparr>requests := requests w @ [QueryPage 1]\<rparr> in
      case first_query e of
        None \<Rightarrow> Inr (None, w1)
      | Some first_page \<Rightarrow>
          if py_not first_page then Inr (None, w1)
          else
            py_then (py_contains first_page ''info'') (\<lambda>has_info.
              if \<not> has_info then Inr (None, w1)
              else
                py_then (py_getitem first_page ''info'') (\<lambda>info.
                py_then (py_getitem info ''pages'') (\<lambda>pages_v.
                py_then (py_int pages_v) (\<lambda>total_pages.
                  (let finished = as_completed e (page_range total_pages max_pages) in
                   Inr (Some (concat (map (process_page e min_installs max_installs) finished)),
                        w1\<lparr>requests := requests w1 @ map QueryPage finished\<rparr>)))))))"

subsection \<open>The cache and the batch (lines 86 to 158)\<close>

definition CACHE_FILENAME :: string where
  "CACHE_FILENAME = ''plugins_cache.json''"

definition cache_file :: "env \<Rightarrow> string \<Rightarrow> path" where
  "cache_file e download_dir = resolve (cwd e) (truediv (posix_parse download_dir) CACHE_FILENAME)"

text \<open>Lines 143 and 144: the file is opened for writing, which empties it, and the list dumped.\<close>

definition save_cache :: "env \<Rightarrow> path \<Rightarrow> json list \<Rightarrow> world \<Rightarrow> py_error + world" where
  "save_cache e cache_path valid_plugins w =
     (case write_file (files w) cache_path (json_dumps e (JArr valid_plugins)) of
        None \<Rightarrow> Inl OSError
      | Some f \<Rightarrow> Inr (w\<lparr>files := f\<rparr>))"

text \<open>Lines 95 and 96.\<close>

definition load_cache :: "env \<Rightarrow> path \<Rightarrow> world \<Rightarrow> py_error + json" where
  "load_cache e cache_path w =
     (case files w cache_path of
        Some (File text) \<Rightarrow>
          (case json_loads e text of None \<Rightarrow> Inl JSONDecodeError | Some v \<Rightarrow> Inr v)
      | _ \<Rightarrow> Inl OSError)"

text \<open>Lines 150 to 158: only the \<^verbatim>\<open>ValueError\<close> is handled, every other exception ends the run.\<close>

fun download_loop ::
  "env \<Rightarrow> string \<Rightarrow> int \<Rightarrow> int option \<Rightarrow> json list \<Rightarrow> world \<Rightarrow> py_error + outcome list \<times> world" where
  "download_loop e download_dir min_installs max_installs [] w = Inr ([], w)"
| "download_loop e download_dir min_installs max_installs (plugin # rest) w =
     (case download_and_extract_plugin e plugin download_dir min_installs max_installs w of
        Inl (ValueError why) \<Rightarrow>
          py_then (download_loop e download_dir min_installs max_installs rest w) (\<lambda>(os, w').
            Inr (Skipped why # os, w'))
      | Inl err \<Rightarrow> Inl err
      | Inr (oc, w1) \<Rightarrow>
          py_then (download_loop e download_dir min_installs max_installs rest w1) (\<lambda>(os, w').
            Inr (oc # os, w')))"

text \<open>How a run that raises nothing ends: at line 101, at line 148, or after the batch.\<close>

datatype run = NoPluginInfo | NothingFound | Finished "outcome list"

definition download_all_plugins ::
  "env \<Rightarrow> string \<Rightarrow> int \<Rightarrow> int option \<Rightarrow> int option \<Rightarrow> bool \<Rightarrow> world \<Rightarrow> py_error + run \<times> world" where
  "download_all_plugins e download_dir min_installs max_installs max_pages use_cache w =
     (case mkdir_parents (files w) (resolve (cwd e) (truediv (posix_parse download_dir) ''plugins'')) of
        None \<Rightarrow> Inl OSError
      | Some f0 \<Rightarrow>
          (let w0 = w\<lparr>files := f0\<rparr>; cache_path = cache_file e download_dir in
           case
             (if use_cache \<and> files w0 cache_path \<noteq> None
              then py_then (load_cache e cache_path w0) (\<lambda>v. Inr (Some v, w0))
              else
                py_then (enumerate_plugins e min_installs max_installs max_pages w0) (\<lambda>(found, w1).
                  (case found of
                     None \<Rightarrow> Inr (None, w1)
                   | Some valid_plugins \<Rightarrow>
                       py_then (save_cache e cache_path valid_plugins w1) (\<lambda>w2.
                         Inr (Some (JArr valid_plugins), w2)))))
           of
             Inl err \<Rightarrow> Inl err
           | Inr (None, w1) \<Rightarrow> Inr (NoPluginInfo, w1)
           | Inr (Some valid_plugins, w1) \<Rightarrow>
               if py_not valid_plugins then Inr (NothingFound, w1)
               else
                 py_then (py_iter valid_plugins) (\<lambda>ps.
                 py_then (download_loop e download_dir min_installs max_installs ps w1) (\<lambda>(os, w2).
                   Inr (Finished os, w2)))))"

subsection \<open>The filter as the specification words it\<close>

text \<open>
  The specification's \<open>accepts\<close>: the install count lies within the bounds, and the timestamp
  parses in the fixed format to a year that is at most two years back. A timestamp that is
  no string does not parse.
\<close>

definition parsed_year :: "env \<Rightarrow> json \<Rightarrow> int option" where
  "parsed_year e last_updated = (case last_updated of JStr s \<Rightarrow> strptime_year e s | _ \<Rightarrow> None)"

definition spec_accepts :: "env \<Rightarrow> int \<Rightarrow> int option \<Rightarrow> int \<Rightarrow> json \<Rightarrow> bool" where
  "spec_accepts e min_installs max_installs installs last_updated =
     (min_installs \<le> installs \<and>
      (max_installs = None \<or> installs \<le> the max_installs) \<and>
      (case parsed_year e last_updated of None \<Rightarrow> False | Some y \<Rightarrow> now_year e - 2 \<le> y))"

text \<open>
  The specification's test on an entry's name: one of its segments is \<^verbatim>\<open>..\<close>, or it starts
  with a slash.
\<close>

definition traversal_name :: "string \<Rightarrow> bool" where
  "traversal_name name =
     (''..'' \<in> set (split_slash name) \<or> (name \<noteq> [] \<and> hd name = CHR ''/''))"

text \<open>The test of line 62, and the path of line 66.\<close>

definition unsafe_member :: "member \<Rightarrow> bool" where
  "unsafe_member m =
     (''..'' \<in> set (parts (posix_parse (filename m))) \<or> is_absolute (posix_parse (filename m)))"

definition dest_path :: "path \<Rightarrow> path \<Rightarrow> member \<Rightarrow> path" where
  "dest_path wd plugin_path m =
     resolve wd (joinpath (as_ppath plugin_path) (parts (posix_parse (filename m))))"

subsection \<open>A registry of three pages, for the examples\<close>

text \<open>What \<^verbatim>\<open>strptime\<close> answers on the timestamps of the examples: the year, or a failure.\<close>

definition sample_strptime :: "string \<Rightarrow> int option" where
  "sample_strptime s =
     (if s = ''2024-11-12 9:41pm GMT'' then Some 2024
      else if s = ''2019-03-02 11:05am GMT'' then Some 2019
      else None)"

definition akismet :: json where
  "akismet = JObj [(''slug'', JStr ''akismet''), (''active_installs'', JInt 5000000),
     (''last_updated'', JStr ''2024-11-12 9:41pm GMT''),
     (''download_link'', JStr ''https://d.example/akismet.zip'')]"

definition hello_dolly :: json where
  "hello_dolly = JObj [(''slug'', JStr ''hello-dolly''),
     (''last_updated'', JStr ''2024-11-12 9:41pm GMT''),
     (''download_link'', JStr ''https://d.example/hello-dolly.zip'')]"

definition old_plugin :: json where
  "old_plugin = JObj [(''slug'', JStr ''old''), (''active_installs'', JInt 7000),
     (''last_updated'', JStr ''2019-03-02 11:05am GMT''),
     (''download_link'', JStr ''https://d.example/old.zip'')]"

definition foo :: json where
  "foo = JObj [(''slug'', JStr ''foo''), (''active_installs'', JInt 2000),
     (''last_updated'', JStr ''2024-11-12 9:41pm GMT''),
     (''download_link'', JStr ''https://d.example/foo.zip'')]"

definition bar :: json where
  "bar = JObj [(''slug'', JStr ''bar''), (''active_installs'', JInt 3000),
     (''last_updated'', JStr ''2024-11-12 9:41pm GMT''),
     (''download_link'', JStr ''https://d.example/bar.zip'')]"

definition page_one :: json where
  "page_one = JObj [(''info'', JObj [(''page'', JInt 1), (''pages'', JInt 3)]),
     (''plugins'', JArr [akismet, old_plugin])]"

definition page_two :: json where
  "page_two = JObj [(''info'', JObj [(''page'', JInt 2), (''pages'', JInt 3)]),
     (''plugins'', JArr [hello_dolly])]"

definition page_three :: json where
  "page_three = JObj [(''info'', JObj [(''page'', JInt 3), (''pages'', JInt 3)]),
     (''plugins'', JArr [foo, bar])]"

definition akismet_zip :: "member list" where
  "akismet_zip =
     [\<lparr>filename = ''akismet/'', content = []\<rparr>,
      \<lparr>filename = ''akismet/akismet.php'', content = ''<?php''\<rparr>,
      \<lparr>filename = ''akismet/views/'', content = []\<rparr>]"

definition bar_zip :: "member list" where
  "bar_zip = [\<lparr>filename = ''bar/bar.php'', content = ''<?php bar''\<rparr>]"

definition evil_zip :: "member list" where
  "evil_zip =
     [\<lparr>filename = ''../etc/passwd'', content = ''root''\<rparr>,
      \<lparr>filename = ''/etc/passwd'', content = ''root''\<rparr>,
      \<lparr>filename = ''a/../../b'', content = ''x''\<rparr>]"

definition sample_archives :: "json \<Rightarrow> download" where
  "sample_archives link =
     (if link = JStr ''https://d.example/akismet.zip'' then Content (ZipFile akismet_zip)
      else if link = JStr ''https://d.example/foo.zip'' then Content BadZipFile
      else if link = JStr ''https://d.example/bar.zip'' then Content (ZipFile bar_zip)
      else RequestException)"

text \<open>The codec on the two documents of the examples.\<close>

definition sample_dumps :: "json \<Rightarrow> string" where
  "sample_dumps v = (if v = JArr [] then ''[]'' else if v = JArr [bar] then ''[bar]'' else ''?'')"

definition sample_loads :: "string \<Rightarrow> json option" where
  "sample_loads s =
     (if s = ''[]'' then Some (JArr []) else if s = ''[bar]'' then Some (JArr [bar]) else None)"

text \<open>Page 2 cannot be fetched; the tasks complete in the reverse of the order of submission.\<close>

definition sample_env :: env where
  "sample_env =
     \<lparr>cwd = [''home'', ''wp''], now_year = 2025, strptime_year = sample_strptime,
      first_query = Some page_one,
      query_plugins = (\<lambda>p. if p = 1 then Some page_one else if p = 3 then Some page_three else None),
      fetch_archive = sample_archives,
      json_dumps = sample_dumps, json_loads = sample_loads, as_completed = rev\<rparr>"

definition empty_disk :: world where
  "empty_disk = \<lparr>files = (\<lambda>p. if p = [] then Some Dir else None), requests = []\<rparr>"

subsection \<open>What the properties speak of\<close>

text \<open>
  The total page count that the first answer yields: the answer is an object whose
  \<^verbatim>\<open>info\<close> is an object whose \<^verbatim>\<open>pages\<close> is an integer.
\<close>

definition total_page_count :: "json option \<Rightarrow> int option" where
  "total_page_count response =
     (case response of
        Some (JObj kvs) \<Rightarrow>
          (case map_of kvs ''info'' of
             Some (JObj info) \<Rightarrow>
               (case map_of info ''pages'' of
                  Some v \<Rightarrow> (case py_int v of Inr n \<Rightarrow> Some n | Inl err \<Rightarrow> None)
                | None \<Rightarrow> None)
           | _ \<Rightarrow> None)
      | _ \<Rightarrow> None)"

text \<open>The pages asked of the registry, in the order of the log.\<close>

definition queried :: "request list \<Rightarrow> int list" where
  "queried rs = concat (map (\<lambda>r. case r of QueryPage p \<Rightarrow> [p] | Download l \<Rightarrow> []) rs)"

text \<open>An archive whose second entry needs a directory where the first has put a file.\<close>

definition clash_zip :: "member list" where
  "clash_zip =
     [\<lparr>filename = ''x'', content = ''1''\<rparr>,
      \<lparr>filename = ''x/y'', content = ''2''\<rparr>,
      \<lparr>filename = ''z'', content = ''3''\<rparr>]"

definition empty_dir_zip :: "member list" where
  "empty_dir_zip = [\<lparr>filename = ''empty/'', content = []\<rparr>]"

text \<open>A disk after an earlier run that has found nothing.\<close>

definition used_disk :: world where
  "used_disk =
     \<lparr>files = (\<lambda>p. if p \<in> set (prefixes [''home'', ''wp'', ''plugins'']) then Some Dir
                    else if p = [''home'', ''wp'', ''plugins_cache.json''] then Some (File ''[]'')
                    else None),
      requests = []\<rparr>"

section \<open>Properties\<close>

subsection \<open>Exceptions\<close>

lemma py_then_Inl [simp]: "py_then (Inl err) k = Inl err"
  by (simp add: py_then_def)

lemma py_then_Inr [simp]: "py_then (Inr x) k = k x"
  by (simp add: py_then_def)

subsection \<open>The plugin filter\<close>

text \<open>
  Claim C2. For a record whose install count is the integer \<open>installs\<close> and whose
  \<^verbatim>\<open>last_updated\<close> is \<open>last_updated\<close>, the loop body of \<^verbatim>\<open>process_page\<close> keeps the record exactly when
  the specification's \<open>accepts\<close> holds: the minimum is at most the install count, the maximum
  is absent or at least the install count, and the timestamp parses to a year not before
  the current year minus two. A record whose timestamp does not parse is never kept,
  whatever its install count is.
\<close>

theorem filter_accepts_iff:
  "(py_get plugin ''active_installs'' (JInt 0) = Inr (JInt installs) \<and>
    py_get plugin ''last_updated'' (JStr []) = Inr last_updated \<longrightarrow>
      passes_filter e min_installs max_installs plugin =
        Inr (spec_accepts e min_installs max_installs installs last_updated)) \<and>
   (py_get plugin ''last_updated'' (JStr []) = Inr last_updated \<and>
    parsed_year e last_updated = None \<longrightarrow>
      passes_filter e min_installs max_installs plugin \<noteq> Inr True)"
  by (auto simp: passes_filter_def py_then_def spec_accepts_def parsed_year_def
      split: sum.splits json.splits option.splits)

theorem filter_accepts_iff_witness:
  "passes_filter sample_env 1000 (Some 10000000) akismet = Inr True \<and>
   passes_filter sample_env 1000 (Some 1000000) akismet = Inr False \<and>
   passes_filter sample_env 0 None
     (JObj [(''slug'', JStr ''x''), (''last_updated'', JStr ''yesterday'')]) \<noteq> Inr True"
proof -
  have a: "py_get akismet ''active_installs'' (JInt 0) = Inr (JInt 5000000)"
    by (simp add: akismet_def)
  have b: "py_get akismet ''last_updated'' (JStr []) = Inr (JStr ''2024-11-12 9:41pm GMT'')"
    by (simp add: akismet_def)
  have c: "py_get (JObj [(''slug'', JStr ''x''), (''last_updated'', JStr ''yesterday'')])
      ''last_updated'' (JStr []) = Inr (JStr ''yesterday'')"
    by simp
  have d: "parsed_year sample_env (JStr ''yesterday'') = None"
    by (simp add: parsed_year_def sample_env_def sample_strptime_def)
  have s1: "spec_accepts sample_env 1000 (Some 10000000) 5000000 (JStr ''2024-11-12 9:41pm GMT'')"
    by (simp add: spec_accepts_def parsed_year_def sample_env_def sample_strptime_def)
  have s2: "\<not> spec_accepts sample_env 1000 (Some 1000000) 5000000 (JStr ''2024-11-12 9:41pm GMT'')"
    by (simp add: spec_accepts_def parsed_year_def sample_env_def sample_strptime_def)
  from filter_accepts_iff [of akismet 5000000 "JStr ''2024-11-12 9:41pm GMT''" sample_env
      1000 "Some 10000000"] a b s1
  have 1: "passes_filter sample_env 1000 (Some 10000000) akismet = Inr True"
    by simp
  from filter_accepts_iff [of akismet 5000000 "JStr ''2024-11-12 9:41pm GMT''" sample_env
      1000 "Some 1000000"] a b s2
  have 2: "passes_filter sample_env 1000 (Some 1000000) akismet = Inr False"
    by simp
  from filter_accepts_iff [of "JObj [(''slug'', JStr ''x''), (''last_updated'', JStr ''yesterday'')]"
      _ "JStr ''yesterday''" sample_env 0 None] c d
  have 3: "passes_filter sample_env 0 None
      (JObj [(''slug'', JStr ''x''), (''last_updated'', JStr ''yesterday'')]) \<noteq> Inr True"
    by blast
  from 1 2 3 show ?thesis by blast
qed

text \<open>
  Claim C10, as the script has it. A record without \<^verbatim>\<open>active_installs\<close> is treated by the filter
  and by the orchestrator exactly as the same record with \<^verbatim>\<open>active_installs\<close> 0. So the filter
  keeps it only if the minimum is at most 0 and the maximum is absent or at least 0; and for
  a record with a slug the orchestrator raises its \<^verbatim>\<open>ValueError\<close> exactly when the minimum
  exceeds 0 or the maximum is below 0.
\<close>

theorem missing_installs_is_zero:
  "map_of kvs ''active_installs'' = None \<Longrightarrow>
   passes_filter e min_installs max_installs (JObj kvs) =
     passes_filter e min_installs max_installs (JObj ((''active_installs'', JInt 0) # kvs)) \<and>
   download_and_extract_plugin e (JObj kvs) download_dir min_installs max_installs w =
     download_and_extract_plugin e (JObj ((''active_installs'', JInt 0) # kvs))
       download_dir min_installs max_installs w \<and>
   (passes_filter e min_installs max_installs (JObj kvs) = Inr True \<longrightarrow>
      min_installs \<le> 0 \<and> (max_installs = None \<or> 0 \<le> the max_installs)) \<and>
   (map_of kvs ''slug'' \<noteq> None \<longrightarrow>
      ((\<exists>why. download_and_extract_plugin e (JObj kvs) download_dir min_installs max_installs w
           = Inl (ValueError why))
       \<longleftrightarrow> \<not> (min_installs \<le> 0 \<and> (max_installs = None \<or> 0 \<le> the max_installs))))"
  by (auto simp: passes_filter_def download_and_extract_plugin_def Let_def
      split: option.splits json.splits sum.splits if_splits)

theorem missing_installs_is_zero_witness:
  "map_of [(''slug'', JStr ''hello-dolly'')] ''active_installs'' = None \<and>
   passes_filter sample_env 1 None (JObj [(''slug'', JStr ''hello-dolly'')]) \<noteq> Inr True \<and>
   (\<exists>why. download_and_extract_plugin sample_env (JObj [(''slug'', JStr ''hello-dolly'')])
      ''.'' 1 None empty_disk = Inl (ValueError why))"
proof -
  have h: "map_of [(''slug'', JStr ''hello-dolly'')] ''active_installs'' = None"
    by simp
  have s: "map_of [(''slug'', JStr ''hello-dolly'')] ''slug'' \<noteq> None"
    by simp
  note c = missing_installs_is_zero [OF h, of sample_env 1 None "''.''" empty_disk]
  from c have "passes_filter sample_env 1 None (JObj [(''slug'', JStr ''hello-dolly'')]) = Inr True
      \<longrightarrow> (1::int) \<le> 0 \<and> ((None :: int option) = None \<or> 0 \<le> the (None :: int option))"
    by (rule conjunct1 [OF conjunct2 [OF conjunct2]])
  then have 1: "passes_filter sample_env 1 None (JObj [(''slug'', JStr ''hello-dolly'')]) \<noteq> Inr True"
    by simp
  from c have "map_of [(''slug'', JStr ''hello-dolly'')] ''slug'' \<noteq> None \<longrightarrow>
      ((\<exists>why. download_and_extract_plugin sample_env (JObj [(''slug'', JStr ''hello-dolly'')])
          ''.'' 1 None empty_disk = Inl (ValueError why))
       \<longleftrightarrow> \<not> ((1::int) \<le> 0 \<and> ((None :: int option) = None \<or> 0 \<le> the (None :: int option))))"
    by (rule conjunct2 [OF conjunct2 [OF conjunct2]])
  with s have 2: "\<exists>why. download_and_extract_plugin sample_env (JObj [(''slug'', JStr ''hello-dolly'')])
      ''.'' 1 None empty_disk = Inl (ValueError why)"
    by simp
  from h 1 2 show ?thesis by blast
qed

text \<open>
  The claim as the specification words it (the record passes the bounds exactly when the
  minimum is at most 0) fails where the maximum is negative: with minimum 0 and maximum -1
  the record without \<^verbatim>\<open>active_installs\<close> is dropped by the filter and skipped by the
  orchestrator.
\<close>

theorem missing_installs_negative_max:
  "(0::int) \<le> 0 \<and>
   passes_filter sample_env 0 (Some (- 1)) hello_dolly = Inr False \<and>
   download_and_extract_plugin sample_env hello_dolly ''.'' 0 (Some (- 1)) empty_disk
     = Inl (ValueError (AboveMax 0 (- 1)))"
  by (simp add: passes_filter_def download_and_extract_plugin_def hello_dolly_def)

subsection \<open>Skipping at download time\<close>

text \<open>
  Claim C7. A record with a slug whose install count is below the minimum, or above a
  maximum that is given, makes the orchestrator raise the \<^verbatim>\<open>ValueError\<close> that carries the
  reason, and nothing else: no request is sent and no file is touched, since the state is
  the one the batch goes on with. The batch records the skip and goes on to the remaining
  plugins.
\<close>

theorem bounds_violation_skips:
  "py_getitem plugin ''slug'' = Inr slug \<Longrightarrow>
   py_get plugin ''active_installs'' (JInt 0) = Inr installs_v \<Longrightarrow>
   py_int installs_v = Inr installs \<Longrightarrow>
   installs < min_installs \<or> (\<exists>mx. max_installs = Some mx \<and> installs > mx) \<Longrightarrow>
   why = (if installs < min_installs then BelowMin installs min_installs
          else AboveMax installs (the max_installs)) \<Longrightarrow>
   download_and_extract_plugin e plugin download_dir min_installs max_installs w
     = Inl (ValueError why) \<and>
   download_loop e download_dir min_installs max_installs [plugin] w = Inr ([Skipped why], w) \<and>
   download_loop e download_dir min_installs max_installs (plugin # rest) w =
     py_then (download_loop e download_dir min_installs max_installs rest w)
       (\<lambda>(os, w'). Inr (Skipped why # os, w'))"
  by (auto simp: download_and_extract_plugin_def)

theorem bounds_violation_skips_witness:
  "download_and_extract_plugin sample_env akismet ''.'' 10000000 None empty_disk
     = Inl (ValueError (BelowMin 5000000 10000000)) \<and>
   download_loop sample_env ''.'' 10000000 None [akismet] empty_disk
     = Inr ([Skipped (BelowMin 5000000 10000000)], empty_disk)"
proof -
  have a: "py_getitem akismet ''slug'' = Inr (JStr ''akismet'')"
    by (simp add: akismet_def)
  have b: "py_get akismet ''active_installs'' (JInt 0) = Inr (JInt 5000000)"
    by (simp add: akismet_def)
  have c: "py_int (JInt 5000000) = Inr 5000000"
    by simp
  have d: "(5000000::int) < 10000000 \<or> (\<exists>mx. (None :: int option) = Some mx \<and> 5000000 > mx)"
    by simp
  have r: "BelowMin 5000000 10000000 =
      (if (5000000::int) < 10000000 then BelowMin 5000000 10000000
       else AboveMax 5000000 (the (None :: int option)))"
    by simp
  from bounds_violation_skips [OF a b c d r, of sample_env "''.''" empty_disk]
  show ?thesis by blast
qed

subsection \<open>The sample registry evaluated\<close>

lemma sample_env_sel:
  "cwd sample_env = [''home'', ''wp'']"
  "now_year sample_env = 2025"
  "strptime_year sample_env = sample_strptime"
  "first_query sample_env = Some page_one"
  "query_plugins sample_env =
     (\<lambda>p. if p = 1 then Some page_one else if p = 3 then Some page_three else None)"
  "fetch_archive sample_env = sample_archives"
  "json_dumps sample_env = sample_dumps"
  "json_loads sample_env = sample_loads"
  "as_completed sample_env = rev"
  by (simp_all add: sample_env_def)

lemma empty_disk_sel [simp]:
  "files empty_disk = (\<lambda>p. if p = [] then Some Dir else None)"
  "requests empty_disk = []"
  by (simp_all add: empty_disk_def)

lemma sample_page_count: "total_page_count (first_query sample_env) = Some 3"
  by (simp add: total_page_count_def page_one_def sample_env_sel)

lemma sample_page_1: "process_page sample_env 1000 None 1 = [akismet]"
  by (simp add: sample_env_sel process_page_def page_plugins_def page_one_def passes_filter_def
      akismet_def old_plugin_def sample_strptime_def)

lemma sample_page_2: "process_page sample_env 1000 None 2 = []"
  by (simp add: sample_env_sel process_page_def page_plugins_def)

lemma sample_page_3: "process_page sample_env 1000 None 3 = [foo, bar]"
  by (simp add: sample_env_sel process_page_def page_plugins_def page_three_def passes_filter_def
      foo_def bar_def sample_strptime_def)

lemma page_range_3: "page_range 3 None = [1, 2, 3]"
  by (simp add: page_range_def upto.simps)

lemma page_range_3_2: "page_range 3 (Some 2) = [1, 2]"
  by (simp add: page_range_def upto.simps)

subsection \<open>The enumeration\<close>

lemma queried_append [simp]: "queried (xs @ ys) = queried xs @ queried ys"
  by (simp add: queried_def)

lemma queried_QueryPage [simp]: "queried (map QueryPage ps) = ps"
  by (induction ps) (simp_all add: queried_def)

lemma queried_Cons_QueryPage [simp]: "queried (QueryPage p # rs) = p # queried rs"
  by (simp add: queried_def)

lemma queried_Nil [simp]: "queried [] = []"
  by (simp add: queried_def)

lemma map_of_in_fst: "map_of kvs k = Some v \<Longrightarrow> k \<in> fst ` set kvs"
  by (metis map_of_eq_None_iff option.distinct(1))

text \<open>Where the first answer yields the count \<open>n\<close>, the enumeration is this.\<close>

lemma enumerate_plugins_counted:
  assumes "total_page_count (first_query e) = Some n"
  shows "enumerate_plugins e min_installs max_installs max_pages w =
     Inr (Some (concat (map (process_page e min_installs max_installs)
                  (as_completed e (page_range n max_pages)))),
          w\<lparr>requests := requests w @ QueryPage 1 #
               map QueryPage (as_completed e (page_range n max_pages))\<rparr>)"
  using assms
  by (auto simp: total_page_count_def enumerate_plugins_def Let_def
      split: option.splits json.splits sum.splits dest: map_of_in_fst)

text \<open>Where it yields none, the enumeration returns at line 101 or raises.\<close>

lemma enumerate_plugins_uncounted:
  assumes "total_page_count (first_query e) = None"
  shows "enumerate_plugins e min_installs max_installs max_pages w \<noteq> Inr (Some found, w')"
proof (cases "first_query e")
  case None
  then show ?thesis
    by (simp add: enumerate_plugins_def Let_def)
next
  case (Some first_page)
  with assms show ?thesis
    by (cases first_page)
      (auto simp: total_page_count_def enumerate_plugins_def Let_def py_then_def
        split: option.splits json.splits sum.splits if_splits)
qed

lemma process_page_failed:
  "query_plugins e page = None \<Longrightarrow> process_page e min_installs max_installs page = []"
  by (simp add: process_page_def page_plugins_def)

lemma filter_plugins_typed:
  "\<forall>x \<in> set ps. \<exists>b. passes_filter e min_installs max_installs x = Inr b \<Longrightarrow>
   filter_plugins e min_installs max_installs ps result =
     Inr (result @ filter (\<lambda>x. passes_filter e min_installs max_installs x = Inr True) ps)"
  by (induction ps arbitrary: result) auto

lemma process_page_typed:
  "query_plugins e page = Some data \<Longrightarrow>
   py_get data ''plugins'' (JArr []) = Inr (JArr ps) \<Longrightarrow>
   \<forall>x \<in> set ps. \<exists>b. passes_filter e min_installs max_installs x = Inr b \<Longrightarrow>
   process_page e min_installs max_installs page =
     filter (\<lambda>x. passes_filter e min_installs max_installs x = Inr True) ps"
  by (simp add: process_page_def page_plugins_def filter_plugins_typed)

lemma mset_concat_map:
  "mset (concat (map f xs)) = \<Sum>\<^sub># (image_mset (\<lambda>x. mset (f x)) (mset xs))"
  by (induction xs) simp_all

text \<open>
  Claim C3. The enumeration yields a list exactly when the first answer yields a total page
  count; otherwise it returns at line 101 or raises. A page whose request fails, or whose
  processing raises, contributes the empty list; a page of records on which the filter
  raises nothing contributes the records the filter keeps. Whatever the order in which the
  tasks complete, the list the enumeration yields holds the contributions of all pages of
  the range and nothing else, so a failed page takes nothing from the others.
\<close>

theorem page_failures_contained:
  "((\<exists>found w'. enumerate_plugins e mn mx mp w = Inr (Some found, w'))
      \<longleftrightarrow> total_page_count (first_query e) \<noteq> None) \<and>
   (query_plugins e page = None \<longrightarrow> process_page e mn mx page = []) \<and>
   (page_plugins e mn mx page = Inl err \<longrightarrow> process_page e mn mx page = []) \<and>
   (query_plugins e page = Some data \<and> py_get data ''plugins'' (JArr []) = Inr (JArr ps) \<and>
    (\<forall>x \<in> set ps. \<exists>b. passes_filter e mn mx x = Inr b) \<longrightarrow>
      process_page e mn mx page = filter (\<lambda>x. passes_filter e mn mx x = Inr True) ps) \<and>
   (total_page_count (first_query e) = Some n \<and>
    mset (as_completed e (page_range n mp)) = mset (page_range n mp) \<and>
    enumerate_plugins e mn mx mp w = Inr (Some found, w') \<longrightarrow>
      mset found =
        \<Sum>\<^sub># (image_mset (\<lambda>p. mset (process_page e mn mx p)) (mset (page_range n mp))) \<and>
      (\<forall>p \<in> set (page_range n mp). set (process_page e mn mx p) \<subseteq> set found))"
proof -
  have 1: "(\<exists>found w'. enumerate_plugins e mn mx mp w = Inr (Some found, w'))
      \<longleftrightarrow> total_page_count (first_query e) \<noteq> None"
  proof (cases "total_page_count (first_query e)")
    case None
    then show ?thesis using enumerate_plugins_uncounted [of e mn mx mp w] by simp
  next
    case (Some n)
    then show ?thesis using enumerate_plugins_counted [of e n mn mx mp w] by simp
  qed
  have 2: "query_plugins e page = None \<longrightarrow> process_page e mn mx page = []"
    by (simp add: process_page_failed)
  have 3: "page_plugins e mn mx page = Inl err \<longrightarrow> process_page e mn mx page = []"
    by (simp add: process_page_def)
  have 4: "query_plugins e page = Some data \<and> py_get data ''plugins'' (JArr []) = Inr (JArr ps) \<and>
    (\<forall>x \<in> set ps. \<exists>b. passes_filter e mn mx x = Inr b) \<longrightarrow>
      process_page e mn mx page = filter (\<lambda>x. passes_filter e mn mx x = Inr True) ps"
    using process_page_typed by blast
  have 5: "mset found =
        \<Sum>\<^sub># (image_mset (\<lambda>p. mset (process_page e mn mx p)) (mset (page_range n mp))) \<and>
      (\<forall>p \<in> set (page_range n mp). set (process_page e mn mx p) \<subseteq> set found)"
    if c: "total_page_count (first_query e) = Some n"
      and perm: "mset (as_completed e (page_range n mp)) = mset (page_range n mp)"
      and r: "enumerate_plugins e mn mx mp w = Inr (Some found, w')"
  proof -
    from enumerate_plugins_counted [OF c, of mn mx mp w] r
    have f: "found = concat (map (process_page e mn mx) (as_completed e (page_range n mp)))"
      by simp
    have m: "mset found =
        \<Sum>\<^sub># (image_mset (\<lambda>p. mset (process_page e mn mx p)) (mset (page_range n mp)))"
      unfolding f mset_concat_map perm ..
    have "set (as_completed e (page_range n mp)) = set (page_range n mp)"
      using perm by (rule mset_eq_setD)
    then have "\<forall>p \<in> set (page_range n mp). set (process_page e mn mx p) \<subseteq> set found"
      unfolding f by auto
    with m show ?thesis by blast
  qed
  from 1 2 3 4 5 show ?thesis by blast
qed

text \<open>Page 2 of 3 fails: the kept records of pages 3 and 1 are the result.\<close>

theorem page_failures_contained_witness:
  "enumerate_plugins sample_env 1000 None None empty_disk =
     Inr (Some [foo, bar, akismet],
          empty_disk\<lparr>requests := [QueryPage 1, QueryPage 3, QueryPage 2, QueryPage 1]\<rparr>) \<and>
   query_plugins sample_env 2 = None \<and>
   process_page sample_env 1000 None 2 = [] \<and>
   set (process_page sample_env 1000 None 1) \<subseteq> set [foo, bar, akismet] \<and>
   set (process_page sample_env 1000 None 3) \<subseteq> set [foo, bar, akismet]"
proof -
  have en: "enumerate_plugins sample_env 1000 None None empty_disk =
     Inr (Some [foo, bar, akismet],
          empty_disk\<lparr>requests := [QueryPage 1, QueryPage 3, QueryPage 2, QueryPage 1]\<rparr>)"
    using enumerate_plugins_counted [OF sample_page_count, of 1000 None None empty_disk]
    by (simp add: page_range_3 sample_page_1 sample_page_2 sample_page_3 sample_env_sel)
  have q2: "query_plugins sample_env 2 = None"
    by (simp add: sample_env_sel)
  have perm: "mset (as_completed sample_env (page_range 3 None)) = mset (page_range 3 None)"
    by (simp add: sample_env_sel)
  note c = page_failures_contained [of sample_env 1000 None None empty_disk 2 _ _ _ 3
      "[foo, bar, akismet]"
      "empty_disk\<lparr>requests := [QueryPage 1, QueryPage 3, QueryPage 2, QueryPage 1]\<rparr>"]
  from c q2 have e2: "process_page sample_env 1000 None 2 = []"
    by blast
  from c sample_page_count perm en
  have "\<forall>p \<in> set (page_range 3 None).
      set (process_page sample_env 1000 None p) \<subseteq> set [foo, bar, akismet]"
    by blast
  then have "set (process_page sample_env 1000 None 1) \<subseteq> set [foo, bar, akismet]"
    and "set (process_page sample_env 1000 None 3) \<subseteq> set [foo, bar, akismet]"
    by (simp_all add: page_range_3)
  with en q2 e2 show ?thesis by blast
qed

text \<open>
  Claim C5, as the script has it. Where the first answer yields the total \<open>n\<close>, the pages
  asked of the registry are page 1, for the first answer, and then the pages from 1 to the
  bound, which is \<open>n\<close> or the smaller of \<open>n\<close> and \<^verbatim>\<open>max_pages\<close>, each once. With a bound of at
  least 1 these are exactly the pages from 1 to the bound.
\<close>

theorem pages_fetched:
  "total_page_count (first_query e) = Some n \<Longrightarrow>
   mset (as_completed e (page_range n mp)) = mset (page_range n mp) \<Longrightarrow>
   bound = (case mp of None \<Rightarrow> n | Some m \<Rightarrow> min n m) \<Longrightarrow>
   \<exists>found w'. enumerate_plugins e mn mx mp w = Inr (found, w') \<and>
     mset (queried (requests w')) = mset (queried (requests w)) + {#1#} + mset [1..bound] \<and>
     set (queried (requests w')) = set (queried (requests w)) \<union> {1} \<union> {1..bound} \<and>
     (1 \<le> bound \<longrightarrow> set (queried (requests w')) = set (queried (requests w)) \<union> {1..bound})"
proof -
  assume c: "total_page_count (first_query e) = Some n"
    and perm: "mset (as_completed e (page_range n mp)) = mset (page_range n mp)"
    and b: "bound = (case mp of None \<Rightarrow> n | Some m \<Rightarrow> min n m)"
  have pr: "page_range n mp = [1..bound]"
    by (simp add: page_range_def b)
  let ?w = "w\<lparr>requests := requests w @ QueryPage 1 #
    map QueryPage (as_completed e (page_range n mp))\<rparr>"
  have q: "queried (requests ?w) = queried (requests w) @ 1 # as_completed e [1..bound]"
    by (simp add: pr)
  have s: "set (as_completed e [1..bound]) = {1..bound}"
    using mset_eq_setD [OF perm] by (simp add: pr)
  have m: "mset (queried (requests ?w)) = mset (queried (requests w)) + {#1#} + mset [1..bound]"
    unfolding q using perm by (simp add: pr)
  have t: "set (queried (requests ?w)) = set (queried (requests w)) \<union> {1} \<union> {1..bound}"
    unfolding q using s by auto
  have u: "1 \<le> bound \<longrightarrow> set (queried (requests ?w)) = set (queried (requests w)) \<union> {1..bound}"
    unfolding t by auto
  from enumerate_plugins_counted [OF c, of mn mx mp w] m t u show ?thesis
    by blast
qed

text \<open>Three pages and \<^verbatim>\<open>max_pages\<close> 2: pages 1 and 2 are asked for, page 3 is not.\<close>

theorem pages_fetched_witness:
  "\<exists>found w'. enumerate_plugins sample_env 1000 None (Some 2) empty_disk = Inr (found, w') \<and>
     set (queried (requests w')) = {1, 2} \<and> 3 \<notin> set (queried (requests w'))"
proof -
  have perm: "mset (as_completed sample_env (page_range 3 (Some 2))) = mset (page_range 3 (Some 2))"
    by (simp add: sample_env_sel)
  have b: "(2::int) = (case Some 2 of None \<Rightarrow> 3 | Some m \<Rightarrow> min 3 m)"
    by simp
  from pages_fetched [OF sample_page_count perm b, of 1000 None empty_disk]
  obtain found w'
    where r: "enumerate_plugins sample_env 1000 None (Some 2) empty_disk = Inr (found, w')"
    and s: "1 \<le> (2::int) \<longrightarrow>
      set (queried (requests w')) = set (queried (requests empty_disk)) \<union> {1..2}"
    by blast
  have "{1..2::int} = {1, 2}"
    by auto
  with s have "set (queried (requests w')) = {1, 2}"
    by simp
  with r show ?thesis by auto
qed

text \<open>
  The claim as the specification words it fails at a bound below 1: with three pages and
  \<^verbatim>\<open>max_pages\<close> 0 the range from 1 to the bound is empty, and page 1 is asked for all the same.
\<close>

theorem page_one_fetched_beyond_bound:
  "total_page_count (first_query sample_env) = Some 3 \<and>
   enumerate_plugins sample_env 1000 None (Some 0) empty_disk =
     Inr (Some [], empty_disk\<lparr>requests := [QueryPage 1]\<rparr>) \<and>
   {1 .. min 3 (0::int)} = {}"
proof -
  have "enumerate_plugins sample_env 1000 None (Some 0) empty_disk =
     Inr (Some [], empty_disk\<lparr>requests := [QueryPage 1]\<rparr>)"
    using enumerate_plugins_counted [OF sample_page_count, of 1000 None "Some 0" empty_disk]
    by (simp add: page_range_def sample_env_sel)
  with sample_page_count show ?thesis by simp
qed

subsection \<open>The extractor\<close>

lemmas path_eval = posix_parse_def truediv_def joinpath_def resolve_def up_or_down_def parent_def
  as_ppath_def parts_def is_absolute_def plugin_dir_def

lemmas fs_eval = mkdir_parents_def write_file_def rmtree_def is_file_def remove_old_def is_dir_def
  parent_def

lemma posix_root_cases: "posix_root s = [] \<or> posix_root s = ''/'' \<or> posix_root s = ''//''"
  by (induction s rule: posix_root.induct) auto

lemma posix_root_empty_iff: "posix_root s = [] \<longleftrightarrow> \<not> (s \<noteq> [] \<and> hd s = CHR ''/'')"
  by (induction s rule: posix_root.induct) auto

lemma posix_root_not_dotdot: "posix_root s \<noteq> ''..''"
  using posix_root_cases [of s] by auto

text \<open>The test of line 62 is the specification's test.\<close>

lemma unsafe_member_iff: "unsafe_member m \<longleftrightarrow> traversal_name (filename m)"
  using posix_root_not_dotdot [of "filename m"]
  by (auto simp: unsafe_member_def traversal_name_def parts_def is_absolute_def posix_parse_def
      posix_root_empty_iff)

text \<open>One turn of the loop, for an entry that fails the test and for one that passes it.\<close>

lemma extract_members_unsafe:
  "unsafe_member m \<Longrightarrow> extract_members wd P (m # ms) f = extract_members wd P ms f"
  by (simp add: unsafe_member_def Let_def)

lemma extract_members_safe:
  "\<not> unsafe_member m \<Longrightarrow>
   extract_members wd P (m # ms) f =
     (case mkdir_parents f (parent (dest_path wd P m)) of
        None \<Rightarrow> (Some OSError, f)
      | Some f1 \<Rightarrow>
          if is_dir m then extract_members wd P ms f1
          else (case write_file f1 (dest_path wd P m) (content m) of
                  None \<Rightarrow> (Some OSError, f1)
                | Some f2 \<Rightarrow> extract_members wd P ms f2))"
  unfolding dest_path_def unsafe_member_def by (simp add: Let_def)

declare extract_members.simps(2) [simp del]

lemma extract_members_filter:
  "extract_members wd P ms f = extract_members wd P (filter (\<lambda>m. \<not> unsafe_member m) ms) f"
proof (induction ms arbitrary: f)
  case Nil
  show ?case by simp
next
  case (Cons m ms)
  show ?case
  proof (cases "unsafe_member m")
    case True
    then show ?thesis using Cons.IH by (simp add: extract_members_unsafe)
  next
    case False
    then show ?thesis using Cons.IH
      by (simp add: extract_members_safe split: option.splits)
  qed
qed

text \<open>
  Claim C1. For every archive, destination and file system, the loop does what it would do
  on the archive without the entries whose name has a \<^verbatim>\<open>..\<close> segment or starts with a
  slash: such an entry changes nothing. If all entries are of this kind, the loop ends
  without an error on the file system it began with, and the orchestrator's download step
  reports the extraction and has only added its request to the log.
\<close>

theorem traversal_entries_skipped:
  "extract_members wd plugin_path ms f =
     extract_members wd plugin_path (filter (\<lambda>m. \<not> traversal_name (filename m)) ms) f \<and>
   ((\<forall>m \<in> set ms. traversal_name (filename m)) \<longrightarrow>
      extract_members wd plugin_path ms f = (None, f) \<and>
      (fetch_archive e link = Content (ZipFile ms) \<longrightarrow>
         fetch_and_extract e plugin_path link w =
           (Extracted, w\<lparr>requests := requests w @ [Download link]\<rparr>)))"
proof -
  have 1: "extract_members wd plugin_path ms f =
     extract_members wd plugin_path (filter (\<lambda>m. \<not> traversal_name (filename m)) ms) f" for wd f
    using extract_members_filter [of wd plugin_path ms f] by (simp add: unsafe_member_iff)
  have 2: "extract_members wd plugin_path ms f = (None, f)"
    if "\<forall>m \<in> set ms. traversal_name (filename m)" for wd f
  proof -
    from that have "filter (\<lambda>m. \<not> traversal_name (filename m)) ms = []"
      by (simp add: filter_empty_conv)
    with 1 [of wd f] show ?thesis by simp
  qed
  have 3: "fetch_and_extract e plugin_path link w =
           (Extracted, w\<lparr>requests := requests w @ [Download link]\<rparr>)"
    if "\<forall>m \<in> set ms. traversal_name (filename m)" "fetch_archive e link = Content (ZipFile ms)"
    using that 2 [OF that(1)] by (simp add: fetch_and_extract_def Let_def)
  from 1 2 3 show ?thesis by blast
qed

theorem traversal_entries_skipped_witness:
  "extract_members [''home'', ''wp''] [''home'', ''wp'', ''plugins'', ''evil''] evil_zip
       (files empty_disk)
     = (None, files empty_disk) \<and>
   fetch_and_extract (sample_env\<lparr>fetch_archive := (\<lambda>l. Content (ZipFile evil_zip))\<rparr>)
       [''home'', ''wp'', ''plugins'', ''evil''] JNull empty_disk
     = (Extracted, empty_disk\<lparr>requests := [Download JNull]\<rparr>)"
proof -
  have u: "\<forall>m \<in> set evil_zip. traversal_name (filename m)"
    by (simp add: evil_zip_def traversal_name_def)
  have a: "fetch_archive (sample_env\<lparr>fetch_archive := (\<lambda>l. Content (ZipFile evil_zip))\<rparr>) JNull
      = Content (ZipFile evil_zip)"
    by simp
  from traversal_entries_skipped [of "[''home'', ''wp'']"
      "[''home'', ''wp'', ''plugins'', ''evil'']" evil_zip "files empty_disk"
      "sample_env\<lparr>fetch_archive := (\<lambda>l. Content (ZipFile evil_zip))\<rparr>" JNull empty_disk] u a
  show ?thesis by (simp add: empty_disk_def)
qed

text \<open>Once the loop has met an error, the entries after it are not looked at.\<close>

lemma extract_members_abort:
  "fst (extract_members wd P ms f) \<noteq> None \<Longrightarrow>
   extract_members wd P (ms @ rest) f = extract_members wd P ms f"
proof (induction ms arbitrary: f)
  case Nil
  then show ?case by simp
next
  case (Cons m ms)
  show ?case
  proof (cases "unsafe_member m")
    case True
    with Cons show ?thesis by (simp add: extract_members_unsafe)
  next
    case False
    with Cons show ?thesis
      by (auto simp: extract_members_safe split: option.splits)
  qed
qed

text \<open>The orchestrator on a record with a string as slug and an install count in the bounds.\<close>

lemma download_and_extract_plugin_in_bounds:
  "py_getitem plugin ''slug'' = Inr (JStr slug) \<Longrightarrow>
   py_get plugin ''active_installs'' (JInt 0) = Inr (JInt installs) \<Longrightarrow>
   min_installs \<le> installs \<Longrightarrow> max_installs = None \<or> installs \<le> the max_installs \<Longrightarrow>
   py_get plugin ''download_link'' JNull = Inr link \<Longrightarrow>
   download_and_extract_plugin e plugin download_dir min_installs max_installs w =
     Inr (fetch_and_extract e (plugin_dir e download_dir slug) link
            (remove_old (plugin_dir e download_dir slug) w))"
  by (auto simp: download_and_extract_plugin_def Let_def split: option.splits)

lemma foo_dir: "plugin_dir sample_env ''.'' ''foo'' = [''home'', ''wp'', ''plugins'', ''foo'']"
  by (simp add: path_eval sample_env_sel)

lemma bar_dir: "plugin_dir sample_env ''.'' ''bar'' = [''home'', ''wp'', ''plugins'', ''bar'']"
  by (simp add: path_eval sample_env_sel)

lemma bar_run:
  "\<exists>w'. download_loop sample_env ''.'' 1000 None [bar] w = Inr ([Extracted], w') \<and>
     files w' [''home'', ''wp'', ''plugins'', ''bar'', ''bar'', ''bar.php'']
       = Some (File ''<?php bar'')"
  if "files w = files empty_disk"
  using that
  by (simp add: download_and_extract_plugin_def bar_def bar_dir fetch_and_extract_def
      sample_env_sel sample_archives_def bar_zip_def extract_members.simps path_eval fs_eval Let_def)

text \<open>
  Claim C6. An archive that cannot be opened ends the download step with the message of
  line 82 and with the file system as it was after the old directory was removed: no entry
  is written. Once an entry has raised an \<^verbatim>\<open>OSError\<close>, the entries after it change nothing,
  and the download step ends with the message of line 84. In both cases the orchestrator
  returns, for every record with a string as slug and an install count within the bounds,
  and the batch goes on with the next plugin from the state the call has left.
\<close>

theorem failures_end_one_plugin_only:
  "(fetch_archive e link = Content BadZipFile \<longrightarrow>
      fetch_and_extract e plugin_path link w =
        (BadArchive, w\<lparr>requests := requests w @ [Download link]\<rparr>)) \<and>
   (fst (extract_members wd plugin_path ms f) \<noteq> None \<longrightarrow>
      extract_members wd plugin_path (ms @ later) f = extract_members wd plugin_path ms f) \<and>
   (fetch_archive e link = Content (ZipFile ms) \<and>
    fst (extract_members (cwd e) plugin_path ms (files w)) \<noteq> None \<longrightarrow>
      fst (fetch_and_extract e plugin_path link w) = ExtractFailed) \<and>
   (py_getitem plugin ''slug'' = Inr (JStr slug) \<and>
    py_get plugin ''active_installs'' (JInt 0) = Inr (JInt installs) \<and>
    min_installs \<le> installs \<and> (max_installs = None \<or> installs \<le> the max_installs) \<and>
    py_get plugin ''download_link'' JNull = Inr link \<longrightarrow>
      download_and_extract_plugin e plugin download_dir min_installs max_installs w =
        Inr (fetch_and_extract e (plugin_dir e download_dir slug) link
               (remove_old (plugin_dir e download_dir slug) w))) \<and>
   (download_and_extract_plugin e plugin download_dir min_installs max_installs w = Inr (oc, w1) \<longrightarrow>
      download_loop e download_dir min_installs max_installs (plugin # rest) w =
        py_then (download_loop e download_dir min_installs max_installs rest w1)
          (\<lambda>(os, w'). Inr (oc # os, w')))"
proof -
  have 1: "fetch_archive e link = Content BadZipFile \<longrightarrow>
      fetch_and_extract e plugin_path link w =
        (BadArchive, w\<lparr>requests := requests w @ [Download link]\<rparr>)"
    by (simp add: fetch_and_extract_def Let_def)
  have 2: "fst (extract_members wd plugin_path ms f) \<noteq> None \<longrightarrow>
      extract_members wd plugin_path (ms @ later) f = extract_members wd plugin_path ms f"
    using extract_members_abort by blast
  have 3: "fetch_archive e link = Content (ZipFile ms) \<and>
    fst (extract_members (cwd e) plugin_path ms (files w)) \<noteq> None \<longrightarrow>
      fst (fetch_and_extract e plugin_path link w) = ExtractFailed"
    by (auto simp: fetch_and_extract_def Let_def split: prod.splits option.splits)
  have 4: "py_getitem plugin ''slug'' = Inr (JStr slug) \<and>
    py_get plugin ''active_installs'' (JInt 0) = Inr (JInt installs) \<and>
    min_installs \<le> installs \<and> (max_installs = None \<or> installs \<le> the max_installs) \<and>
    py_get plugin ''download_link'' JNull = Inr link \<longrightarrow>
      download_and_extract_plugin e plugin download_dir min_installs max_installs w =
        Inr (fetch_and_extract e (plugin_dir e download_dir slug) link
               (remove_old (plugin_dir e download_dir slug) w))"
    using download_and_extract_plugin_in_bounds by blast
  have 5: "download_and_extract_plugin e plugin download_dir min_installs max_installs w
      = Inr (oc, w1) \<longrightarrow>
      download_loop e download_dir min_installs max_installs (plugin # rest) w =
        py_then (download_loop e download_dir min_installs max_installs rest w1)
          (\<lambda>(os, w'). Inr (oc # os, w'))"
    by simp
  from 1 2 3 4 5 show ?thesis by blast
qed

text \<open>
  The archive of \<open>foo\<close> cannot be opened; \<open>bar\<close>, next in the batch, is downloaded and
  unpacked. And the archive with the clash ends at its second entry, whatever follows.
\<close>

theorem failures_end_one_plugin_only_witness:
  "(\<exists>w'. download_loop sample_env ''.'' 1000 None [foo, bar] empty_disk
        = Inr ([BadArchive, Extracted], w') \<and>
      files w' [''home'', ''wp'', ''plugins'', ''bar'', ''bar'', ''bar.php'']
        = Some (File ''<?php bar'')) \<and>
   extract_members [] [''p''] (clash_zip @ bar_zip) (files empty_disk)
     = extract_members [] [''p''] clash_zip (files empty_disk)"
proof -
  let ?link = "JStr ''https://d.example/foo.zip''"
  let ?P = "plugin_dir sample_env ''.'' ''foo''"
  let ?w1 = "empty_disk\<lparr>requests := [Download ?link]\<rparr>"
  have a: "fetch_archive sample_env ?link = Content BadZipFile"
    by (simp add: sample_env_sel sample_archives_def)
  have r: "remove_old ?P empty_disk = empty_disk"
    by (simp add: remove_old_def foo_dir)
  have b: "py_getitem foo ''slug'' = Inr (JStr ''foo'')"
    "py_get foo ''active_installs'' (JInt 0) = Inr (JInt 2000)"
    "py_get foo ''download_link'' JNull = Inr ?link"
    by (simp_all add: foo_def)
  have c: "fst (extract_members [] [''p''] clash_zip (files empty_disk)) \<noteq> None"
    by (simp add: clash_zip_def extract_members.simps path_eval fs_eval Let_def)
  note t = failures_end_one_plugin_only [where e = sample_env and link = ?link
      and plugin_path = ?P and w = empty_disk and plugin = foo and slug = "''foo''"
      and installs = 2000 and min_installs = 1000 and max_installs = None
      and download_dir = "''.''" and oc = BadArchive and ?w1.0 = ?w1 and rest = "[bar]"]
  note u = failures_end_one_plugin_only [where wd = "[]" and plugin_path = "[''p'']"
      and ms = clash_zip and f = "files empty_disk" and later = bar_zip]
  from t a have 1: "fetch_and_extract sample_env ?P ?link empty_disk = (BadArchive, ?w1)"
    by simp
  from t b have 2: "download_and_extract_plugin sample_env foo ''.'' 1000 None empty_disk =
      Inr (fetch_and_extract sample_env ?P ?link (remove_old ?P empty_disk))"
    by simp
  from 1 2 r have 3: "download_and_extract_plugin sample_env foo ''.'' 1000 None empty_disk =
      Inr (BadArchive, ?w1)"
    by simp
  from t 3 have 4: "download_loop sample_env ''.'' 1000 None (foo # [bar]) empty_disk =
      py_then (download_loop sample_env ''.'' 1000 None [bar] ?w1)
        (\<lambda>(os, w'). Inr (BadArchive # os, w'))"
    by blast
  from bar_run [of ?w1] obtain w' where
    5: "download_loop sample_env ''.'' 1000 None [bar] ?w1 = Inr ([Extracted], w')"
    and 6: "files w' [''home'', ''wp'', ''plugins'', ''bar'', ''bar'', ''bar.php'']
      = Some (File ''<?php bar'')"
    by auto
  from 4 5 have "download_loop sample_env ''.'' 1000 None [foo, bar] empty_disk
      = Inr ([BadArchive, Extracted], w')"
    by simp
  with 6 have 7: "\<exists>w'. download_loop sample_env ''.'' 1000 None [foo, bar] empty_disk
        = Inr ([BadArchive, Extracted], w') \<and>
      files w' [''home'', ''wp'', ''plugins'', ''bar'', ''bar'', ''bar.php'']
        = Some (File ''<?php bar'')"
    by blast
  from conjunct1 [OF conjunct2 [OF u]] c
  have 8: "extract_members [] [''p''] (clash_zip @ bar_zip) (files empty_disk)
     = extract_members [] [''p''] clash_zip (files empty_disk)"
    by (rule mp)
  from 7 8 show ?thesis by blast
qed

text \<open>
  Claim C8, where the script differs. An archive with the single entry \<^verbatim>\<open>empty/\<close>, a
  directory, unpacked into \<^verbatim>\<open>/p\<close> on an empty disk: the loop ends without an error and has
  made \<^verbatim>\<open>/p\<close>, the parent of the entry's path, but not \<^verbatim>\<open>/p/empty\<close>.
\<close>

theorem empty_directory_entry_not_created:
  "is_dir (hd empty_dir_zip) \<and>
   fst (extract_members [] [''p''] empty_dir_zip (files empty_disk)) = None \<and>
   snd (extract_members [] [''p''] empty_dir_zip (files empty_disk)) [''p''] = Some Dir \<and>
   snd (extract_members [] [''p''] empty_dir_zip (files empty_disk)) [''p'', ''empty''] = None"
  by (simp add: empty_dir_zip_def extract_members.simps path_eval fs_eval Let_def)

subsection \<open>The cache\<close>

text \<open>
  Claim C4. If the JSON codec gives the list of records back (the list is representable),
  and saving succeeds, then loading from the same path yields the list. The file holds the
  dump of the list and nothing of what it held before; no other path and no request has
  changed.
\<close>

theorem cache_round_trip:
  "json_loads e (json_dumps e (JArr records)) = Some (JArr records) \<Longrightarrow>
   save_cache e cache_path records w = Inr w' \<Longrightarrow>
   load_cache e cache_path w' = Inr (JArr records) \<and>
   files w' cache_path = Some (File (json_dumps e (JArr records))) \<and>
   (\<forall>q. q \<noteq> cache_path \<longrightarrow> files w' q = files w q) \<and>
   requests w' = requests w"
  by (auto simp: save_cache_def load_cache_def write_file_def split: if_splits)

lemma cache_file_sample: "cache_file sample_env ''.'' = [''home'', ''wp'', ''plugins_cache.json'']"
  by (simp add: cache_file_def CACHE_FILENAME_def path_eval sample_env_sel)

text \<open>The cache of an earlier run holds the empty list; the new list replaces it.\<close>

theorem cache_round_trip_witness:
  "load_cache sample_env (cache_file sample_env ''.'') used_disk = Inr (JArr []) \<and>
   (\<exists>w'. save_cache sample_env (cache_file sample_env ''.'') [bar] used_disk = Inr w' \<and>
      load_cache sample_env (cache_file sample_env ''.'') w' = Inr (JArr [bar]) \<and>
      files w' (cache_file sample_env ''.'') = Some (File ''[bar]''))"
proof -
  let ?p = "cache_file sample_env ''.''"
  have nb: "JArr [bar] \<noteq> JArr []"
    by simp
  have a: "json_loads sample_env (json_dumps sample_env (JArr [bar])) = Some (JArr [bar])"
    using nb by (simp add: sample_env_sel sample_dumps_def sample_loads_def)
  have d: "json_dumps sample_env (JArr [bar]) = ''[bar]''"
    using nb by (simp add: sample_env_sel sample_dumps_def)
  have o: "load_cache sample_env ?p used_disk = Inr (JArr [])"
    by (simp add: load_cache_def cache_file_sample used_disk_def sample_env_sel sample_loads_def)
  obtain w' where s: "save_cache sample_env ?p [bar] used_disk = Inr w'"
    by (simp add: save_cache_def write_file_def cache_file_sample used_disk_def parent_def)
  from cache_round_trip [OF a s] d have "load_cache sample_env ?p w' = Inr (JArr [bar]) \<and>
      files w' ?p = Some (File ''[bar]'')"
    by simp
  with o s show ?thesis by blast
qed

end
